theory Spec2Isabelle
  imports Main
begin

section \<open>DogNFT API: the record store and its request handlers\<close>

text \<open>
  A shallow embedding of \<^verbatim>\<open>src/api.py\<close>. The SQLite table \<^verbatim>\<open>nfts\<close> is a list of rows in
  insertion order; every handler takes the table and returns its result together with the
  table after the request. A raised exception is the \<open>Inl\<close> branch of the result.
\<close>

subsection \<open>Values\<close>

text \<open>The JSON values the handlers return; a Python dict literal is an association list.\<close>

datatype json =
    JNull
  | JBool bool
  | JInt int
  | JStr string
  | JArr "json list"
  | JObj "(string \<times> json) list"

type_synonym dict = "(string \<times> json) list"

text \<open>\<^verbatim>\<open>str(n)\<close> for a non-negative integer, as the f-string of the identifier uses it.\<close>

definition digit_char :: "nat \<Rightarrow> char" where
  "digit_char d = ''0123456789'' ! d"

fun str_of_nat :: "nat \<Rightarrow> string" where
  "str_of_nat n = (if n < 10 then [digit_char n] else str_of_nat (n div 10) @ [digit_char (n mod 10)])"

declare str_of_nat.simps [simp del]

text \<open>\<^verbatim>\<open>"%0wd" % n\<close>: decimal, padded with zeros on the left up to width \<open>w\<close>.\<close>

definition zero_pad :: "nat \<Rightarrow> nat \<Rightarrow> string" where
  "zero_pad w n = replicate (w - length (str_of_nat n)) (CHR ''0'') @ str_of_nat n"

text \<open>A naive \<^verbatim>\<open>datetime\<close> (what \<^verbatim>\<open>datetime.utcnow\<close> returns) and its \<^verbatim>\<open>isoformat()\<close>.\<close>

record datetime =
  year :: nat
  month :: nat
  day :: nat
  hour :: nat
  minute :: nat
  second :: nat
  microsecond :: nat

definition isoformat :: "datetime \<Rightarrow> string" where
  "isoformat t =
     zero_pad 4 (year t) @ ''-'' @ zero_pad 2 (month t) @ ''-'' @ zero_pad 2 (day t) @ ''T'' @
     zero_pad 2 (hour t) @ '':'' @ zero_pad 2 (minute t) @ '':'' @ zero_pad 2 (second t) @
     (if microsecond t = 0 then [] else ''.'' @ zero_pad 6 (microsecond t))"

definition opt_str :: "string option \<Rightarrow> json" where
  "opt_str v = (case v of None \<Rightarrow> JNull | Some x \<Rightarrow> JStr x)"

definition opt_attributes :: "dict list option \<Rightarrow> json" where
  "opt_attributes v = (case v of None \<Rightarrow> JNull | Some ds \<Rightarrow> JArr (map JObj ds))"

subsection \<open>Request bodies\<close>

record CheckNameRequest =
  name :: string
  walletAddress :: string

record CheckKeyRequest =
  dogKey :: string
  walletAddress :: string

record GenerateNFTRequest =
  name :: string
  description :: "string option"
  dogKey :: string
  walletAddress :: string
  attributes :: "dict list option"

subsection \<open>The table\<close>

text \<open>
  A row of \<^verbatim>\<open>nfts\<close>. The column \<^verbatim>\<open>id\<close> is the field \<open>nft_id\<close>. The record is declared after
  the request bodies, so that the unqualified field names are those of the row.
\<close>

record NFT =
  nft_id :: string
  name :: string
  description :: "string option"
  dogKey :: string
  walletAddress :: string
  attributes :: "dict list option"
  status :: string
  progress :: int
  imageUrl :: "string option"
  contractAddress :: "string option"
  tokenId :: "string option"
  createdAt :: datetime
  mintedAt :: "datetime option"

type_synonym db = "NFT list"

text \<open>
  The constraints of the schema: \<^verbatim>\<open>id\<close> is the primary key and \<^verbatim>\<open>dogKey\<close> is declared
  \<^verbatim>\<open>unique=True\<close>. No constraint is declared on \<^verbatim>\<open>name\<close>.
\<close>

definition db_ok :: "db \<Rightarrow> bool" where
  "db_ok d = (distinct (map nft_id d) \<and> distinct (map dogKey d))"

datatype exn =
    HTTPException int dict
  | IntegrityError

type_synonym result = "(exn + dict) \<times> db"

text \<open>\<^verbatim>\<open>db.query(NFT).filter(p).first()\<close> and \<^verbatim>\<open>.all()\<close>: a scan in storage order.\<close>

definition query_first :: "(NFT \<Rightarrow> bool) \<Rightarrow> db \<Rightarrow> NFT option" where
  "query_first p d = List.find p d"

definition query_all :: "(NFT \<Rightarrow> bool) \<Rightarrow> db \<Rightarrow> NFT list" where
  "query_all p d = filter p d"

text \<open>
  \<^verbatim>\<open>db.add(row); db.commit()\<close>: the INSERT is refused, with an \<^verbatim>\<open>IntegrityError\<close>, when the
  primary key or the unique key is already in the table.
\<close>

definition db_insert :: "db \<Rightarrow> NFT \<Rightarrow> db option" where
  "db_insert d row =
     (if nft_id row \<in> set (map nft_id d) \<or> dogKey row \<in> set (map dogKey d) then None
      else Some (d @ [row]))"

text \<open>
  \<^verbatim>\<open>db.commit()\<close> after assignments to a loaded row: the UPDATE addresses the row by its
  primary key and leaves it at its place.
\<close>

definition db_update :: "db \<Rightarrow> NFT \<Rightarrow> db" where
  "db_update d row = map (\<lambda>r. if nft_id r = nft_id row then row else r) d"

subsection \<open>Handlers\<close>

definition read_root :: "db \<Rightarrow> result" where
  "read_root d =
     (Inr [(''message'', JStr ''Welcome to DogNFT API! Visit /docs for API documentation.'')], d)"

definition check_name :: "db \<Rightarrow> CheckNameRequest \<Rightarrow> result" where
  "check_name d request =
     (case query_first (\<lambda>n. name n = CheckNameRequest.name request) d of
        Some existing_nft \<Rightarrow>
          (Inr [(''available'', JBool False), (''message'', JStr ''NFT name is already taken'')], d)
      | None \<Rightarrow>
          (Inr [(''available'', JBool True), (''message'', JStr ''NFT name is available'')], d))"

definition check_key :: "db \<Rightarrow> CheckKeyRequest \<Rightarrow> result" where
  "check_key d request =
     (case query_first (\<lambda>n. dogKey n = CheckKeyRequest.dogKey request) d of
        Some existing_key \<Rightarrow>
          (Inr [(''valid'', JBool True), (''unique'', JBool False),
                (''message'', JStr ''Dog key is valid but not unique'')], d)
      | None \<Rightarrow>
          (Inr [(''valid'', JBool True), (''unique'', JBool True),
                (''message'', JStr ''Dog key is valid and unique'')], d))"

definition generate_response :: "NFT \<Rightarrow> dict" where
  "generate_response new_nft =
     [(''id'', JStr (nft_id new_nft)),
      (''status'', JStr (status new_nft)),
      (''name'', JStr (name new_nft)),
      (''description'', opt_str (description new_nft)),
      (''dogKey'', JStr (dogKey new_nft)),
      (''walletAddress'', JStr (walletAddress new_nft)),
      (''contractAddress'', opt_str (contractAddress new_nft)),
      (''tokenId'', opt_str (tokenId new_nft)),
      (''attributes'', opt_attributes (attributes new_nft)),
      (''createdAt'', JStr (isoformat (createdAt new_nft))),
      (''mintedAt'', (case mintedAt new_nft of None \<Rightarrow> JNull | Some t \<Rightarrow> JStr (isoformat t))),
      (''message'', JStr ''NFT generation started'')]"

text \<open>
  The row built by \<^verbatim>\<open>NFT(id=..., ..., status="generating", progress=0)\<close>. The columns the
  constructor call leaves out are NULL, but for \<^verbatim>\<open>createdAt\<close>, whose column default
  \<^verbatim>\<open>datetime.utcnow\<close> is evaluated at the INSERT: \<open>now\<close> is what it returns.
\<close>

definition new_row :: "db \<Rightarrow> GenerateNFTRequest \<Rightarrow> datetime \<Rightarrow> NFT" where
  "new_row d request now = \<lparr>
     nft_id = ''nft_'' @ str_of_nat (length (query_all (\<lambda>n. True) d) + 1),
     name = GenerateNFTRequest.name request,
     description = GenerateNFTRequest.description request,
     dogKey = GenerateNFTRequest.dogKey request,
     walletAddress = GenerateNFTRequest.walletAddress request,
     attributes = GenerateNFTRequest.attributes request,
     status = ''generating'',
     progress = 0,
     imageUrl = None,
     contractAddress = None,
     tokenId = None,
     createdAt = now,
     mintedAt = None \<rparr>"

definition generate_nft :: "db \<Rightarrow> GenerateNFTRequest \<Rightarrow> datetime \<Rightarrow> result" where
  "generate_nft d request now =
     (case query_first (\<lambda>n. dogKey n = GenerateNFTRequest.dogKey request) d of
        Some existing_key \<Rightarrow>
          (Inl (HTTPException 400
                 [(''error'', JStr ''Dog key must be unique''), (''code'', JStr ''DUPLICATE_KEY'')]), d)
      | None \<Rightarrow>
          (let new_nft = new_row d request now
           in case db_insert d new_nft of
                None \<Rightarrow> (Inl IntegrityError, d)
              | Some d1 \<Rightarrow>
                  (let new_nft = new_nft\<lparr>progress := 50\<rparr>;
                       d2 = db_update d1 new_nft
                   in (Inr (generate_response new_nft), d2))))"

definition image_url :: "string \<Rightarrow> string" where
  "image_url i = ''https://example.com/nft/'' @ i @ ''.png''"

definition status_response :: "NFT \<Rightarrow> dict" where
  "status_response nft =
     [(''id'', JStr (nft_id nft)),
      (''status'', JStr (status nft)),
      (''progress'', JInt (progress nft)),
      (''imageUrl'', opt_str (imageUrl nft)),
      (''walletAddress'', JStr (walletAddress nft)),
      (''contractAddress'', opt_str (contractAddress nft)),
      (''tokenId'', opt_str (tokenId nft)),
      (''message'', JStr ''NFT status retrieved'')]"

text \<open>The assignments of the \<^verbatim>\<open>if nft.status == "generating"\<close> block, on the loaded row.\<close>

definition advance :: "string \<Rightarrow> NFT \<Rightarrow> NFT" where
  "advance i nft =
     (let nft = nft\<lparr>progress := min (progress nft + 25) 100\<rparr>
      in if progress nft = 100 then nft\<lparr>status := ''ready'', imageUrl := Some (image_url i)\<rparr>
         else nft)"

definition get_nft_status :: "db \<Rightarrow> string \<Rightarrow> string \<Rightarrow> result" where
  "get_nft_status d i wallet =
     (case query_first (\<lambda>n. nft_id n = i \<and> walletAddress n = wallet) d of
        None \<Rightarrow>
          (Inl (HTTPException 404
                 [(''error'', JStr ''NFT not found''), (''code'', JStr ''NFT_NOT_FOUND'')]), d)
      | Some nft \<Rightarrow>
          (if status nft = ''generating''
           then (let nft = advance i nft in (Inr (status_response nft), db_update d nft))
           else (Inr (status_response nft), d)))"

definition collection_entry :: "NFT \<Rightarrow> dict" where
  "collection_entry nft =
     [(''id'', JStr (nft_id nft)),
      (''name'', JStr (name nft)),
      (''status'', JStr (status nft)),
      (''imageUrl'', opt_str (imageUrl nft)),
      (''dogKey'', JStr (dogKey nft)),
      (''walletAddress'', JStr (walletAddress nft)),
      (''contractAddress'', opt_str (contractAddress nft)),
      (''tokenId'', opt_str (tokenId nft)),
      (''attributes'', opt_attributes (attributes nft)),
      (''createdAt'', JStr (isoformat (createdAt nft))),
      (''mintedAt'', (case mintedAt nft of None \<Rightarrow> JNull | Some t \<Rightarrow> JStr (isoformat t)))]"

definition get_nft_collection :: "db \<Rightarrow> string \<Rightarrow> result" where
  "get_nft_collection d wallet =
     (let nfts = query_all (\<lambda>n. walletAddress n = wallet) d
      in if nfts = []
         then (Inl (HTTPException 404
                     [(''error'', JStr ''No NFTs found for this wallet''), (''code'', JStr ''NO_NFTS'')]), d)
         else (Inr [(''nfts'', JArr (map (\<lambda>nft. JObj (collection_entry nft)) nfts))], d))"

subsection \<open>Requests and reachable tables\<close>

datatype api_call =
    Root
  | CheckName CheckNameRequest
  | CheckKey CheckKeyRequest
  | Generate GenerateNFTRequest datetime
  | Status string string
  | Collection string

fun handle :: "db \<Rightarrow> api_call \<Rightarrow> result" where
  "handle d Root = read_root d"
| "handle d (CheckName request) = check_name d request"
| "handle d (CheckKey request) = check_key d request"
| "handle d (Generate request now) = generate_nft d request now"
| "handle d (Status i wallet) = get_nft_status d i wallet"
| "handle d (Collection wallet) = get_nft_collection d wallet"

text \<open>The tables the service can be in: the empty table, and the table after any request.\<close>

inductive reachable :: "db \<Rightarrow> bool" where
  reachable_init: "reachable []"
| reachable_step: "reachable d \<Longrightarrow> reachable (snd (handle d c))"

subsection \<open>Reading responses, polling, and the example of the schema\<close>

text \<open>A key of the JSON body of a response; an error response has no body.\<close>

definition field :: "exn + dict \<Rightarrow> string \<Rightarrow> json option" where
  "field r k = (case r of Inl e \<Rightarrow> None | Inr body \<Rightarrow> map_of body k)"

text \<open>\<open>n\<close> calls of \<^verbatim>\<open>get_nft_status\<close> one after the other; the responses in order.\<close>

fun poll :: "db \<Rightarrow> string \<Rightarrow> string \<Rightarrow> nat \<Rightarrow> (exn + dict) list \<times> db" where
  "poll d i wallet 0 = ([], d)"
| "poll d i wallet (Suc n) =
     (let (r, d1) = get_nft_status d i wallet;
          (rs, d2) = poll d1 i wallet n
      in (r # rs, d2))"

text \<open>
  The invariant of a finished row: progress 100 and, written out, the URL that the f-string
  of \<^verbatim>\<open>get_nft_status\<close> builds around the \<^verbatim>\<open>id\<close> of the row.
\<close>

definition ready_inv :: "db \<Rightarrow> bool" where
  "ready_inv d =
     (\<forall>r \<in> set d. status r = ''ready'' \<longrightarrow>
        imageUrl r = Some (''https://example.com/nft/'' @ nft_id r @ ''.png'') \<and> progress r = 100)"

text \<open>The example of \<^verbatim>\<open>json_schema_extra\<close>, and the row it is stored as.\<close>

definition example_time :: datetime where
  "example_time =
     \<lparr>year = 2024, month = 3, day = 15, hour = 10, minute = 30, second = 0, microsecond = 0\<rparr>"

definition example_request :: GenerateNFTRequest where
  "example_request = \<lparr>
     GenerateNFTRequest.name = ''CryptoDog #1'',
     description = Some ''A unique crypto dog NFT'',
     dogKey = ''KEY_123456'',
     walletAddress = ''0x123...abc'',
     attributes = Some [[(''type'', JStr ''Rarity''), (''value'', JStr ''Legendary'')],
                        [(''type'', JStr ''Level''), (''value'', JStr ''50'')]] \<rparr>"

definition example_row :: "int \<Rightarrow> NFT" where
  "example_row p = \<lparr>
     nft_id = ''nft_1'',
     name = ''CryptoDog #1'',
     description = Some ''A unique crypto dog NFT'',
     dogKey = ''KEY_123456'',
     walletAddress = ''0x123...abc'',
     attributes = Some [[(''type'', JStr ''Rarity''), (''value'', JStr ''Legendary'')],
                        [(''type'', JStr ''Level''), (''value'', JStr ''50'')]],
     status = ''generating'',
     progress = p,
     imageUrl = None,
     contractAddress = None,
     tokenId = None,
     createdAt = example_time,
     mintedAt = None \<rparr>"

definition example_ready :: NFT where
  "example_ready =
     (example_row 100)\<lparr>status := ''ready'', imageUrl := Some ''https://example.com/nft/nft_1.png''\<rparr>"

text \<open>A second request, with the name of the first and a key of its own.\<close>

definition example_request2 :: GenerateNFTRequest where
  "example_request2 = example_request\<lparr>GenerateNFTRequest.dogKey := ''KEY_654321''\<rparr>"

text \<open>
  A request of another wallet, with no description and no attributes, stored at a time with
  microseconds; the row it is stored as, and that row when finished.
\<close>

definition second_time :: datetime where
  "second_time =
     \<lparr>year = 2024, month = 3, day = 15, hour = 10, minute = 30, second = 7, microsecond = 42\<rparr>"

definition second_request :: GenerateNFTRequest where
  "second_request = \<lparr>
     GenerateNFTRequest.name = ''CryptoDog #2'',
     description = None,
     dogKey = ''KEY_000002'',
     walletAddress = ''0x999'',
     attributes = None \<rparr>"

definition second_row :: "int \<Rightarrow> NFT" where
  "second_row p = \<lparr>
     nft_id = ''nft_2'',
     name = ''CryptoDog #2'',
     description = None,
     dogKey = ''KEY_000002'',
     walletAddress = ''0x999'',
     attributes = None,
     status = ''generating'',
     progress = p,
     imageUrl = None,
     contractAddress = None,
     tokenId = None,
     createdAt = second_time,
     mintedAt = None \<rparr>"

definition second_ready :: NFT where
  "second_ready =
     (second_row 100)\<lparr>status := ''ready'', imageUrl := Some ''https://example.com/nft/nft_2.png''\<rparr>"

text \<open>The row of \<open>example_request2\<close> when it is the third of the table.\<close>

definition third_row :: NFT where
  "third_row = (example_row 50)\<lparr>nft_id := ''nft_3'', dogKey := ''KEY_654321''\<rparr>"

section \<open>Properties\<close>

subsection \<open>Queries and writes\<close>

lemma query_first_None: "query_first p d = None \<longleftrightarrow> (\<forall>r \<in> set d. \<not> p r)"
  by (auto simp: query_first_def find_None_iff)

lemma query_first_Some: "query_first p d = Some r \<Longrightarrow> r \<in> set d \<and> p r"
  by (auto simp: query_first_def find_Some_iff)

lemma query_first_append_last:
  "\<forall>x \<in> set d. \<not> p x \<Longrightarrow> p r \<Longrightarrow> query_first p (d @ [r]) = Some r"
  by (induction d) (simp_all add: query_first_def)

lemma query_first_unique:
  assumes "r \<in> set d" and "p r" and "\<And>x. x \<in> set d \<Longrightarrow> p x \<Longrightarrow> x = r"
  shows "query_first p d = Some r"
proof (cases "query_first p d")
  case None
  with assms(1,2) show ?thesis by (simp add: query_first_None)
next
  case (Some x)
  from query_first_Some [OF Some] assms(3) have "x = r" by blast
  with Some show ?thesis by simp
qed

lemma pk_unique: "distinct (map nft_id d) \<Longrightarrow> r \<in> set d \<Longrightarrow> x \<in> set d \<Longrightarrow> nft_id x = nft_id r \<Longrightarrow> x = r"
  by (meson distinct_map inj_onD)

lemma db_update_ids: "map nft_id (db_update d row) = map nft_id d"
  by (induction d) (simp_all add: db_update_def)

lemma db_update_length: "length (db_update d row) = length d"
  by (simp add: db_update_def)

lemma db_update_fresh: "nft_id row \<notin> set (map nft_id d) \<Longrightarrow> db_update d row = d"
  by (induction d) (auto simp: db_update_def)

lemma db_update_append_last:
  "nft_id row \<notin> set (map nft_id d) \<Longrightarrow> nft_id r = nft_id row \<Longrightarrow> db_update (d @ [r]) row = d @ [row]"
  using db_update_fresh [of row d] by (simp add: db_update_def)

lemma example_id: "str_of_nat (Suc 0) = ''1''"
  by (simp add: str_of_nat.simps digit_char_def)

lemma generate_example:
  "generate_nft [] example_request example_time =
     (Inr (generate_response (example_row 50)), [example_row 50])"
  by (simp add: generate_nft_def new_row_def example_request_def example_row_def query_first_def
      query_all_def db_insert_def db_update_def example_id Let_def)

lemma generate_nft_duplicate:
  assumes "r \<in> set d" and "dogKey r = GenerateNFTRequest.dogKey request"
  shows "generate_nft d request now =
           (Inl (HTTPException 400
                  [(''error'', JStr ''Dog key must be unique''), (''code'', JStr ''DUPLICATE_KEY'')]), d)"
proof (cases "query_first (\<lambda>n. dogKey n = GenerateNFTRequest.dogKey request) d")
  case None
  with assms show ?thesis by (simp add: query_first_None)
next
  case (Some existing_key)
  then show ?thesis by (simp add: generate_nft_def)
qed

lemma generate_nft_Inr:
  assumes "generate_nft d request now = (Inr body, d')"
  shows "body = generate_response ((new_row d request now)\<lparr>progress := 50\<rparr>)"
    and "d' = d @ [(new_row d request now)\<lparr>progress := 50\<rparr>]"
    and "nft_id (new_row d request now) \<notin> set (map nft_id d)"
    and "dogKey (new_row d request now) \<notin> set (map dogKey d)"
proof -
  let ?row = "new_row d request now"
  have q: "query_first (\<lambda>n. dogKey n = GenerateNFTRequest.dogKey request) d = None"
    using assms
    by (cases "query_first (\<lambda>n. dogKey n = GenerateNFTRequest.dogKey request) d")
      (simp_all add: generate_nft_def)
  obtain d1 where ins: "db_insert d ?row = Some d1"
    using assms q by (cases "db_insert d ?row") (simp_all add: generate_nft_def)
  then have d1: "d1 = d @ [?row]"
    by (simp add: db_insert_def split: if_splits)
  from ins show fresh: "nft_id ?row \<notin> set (map nft_id d)"
    by (simp add: db_insert_def split: if_splits)
  from ins show "dogKey ?row \<notin> set (map dogKey d)"
    by (simp add: db_insert_def split: if_splits)
  have upd: "db_update d1 (?row\<lparr>progress := 50\<rparr>) = d @ [?row\<lparr>progress := 50\<rparr>]"
    unfolding d1 by (rule db_update_append_last) (use fresh in simp_all)
  from assms q ins upd show "body = generate_response (?row\<lparr>progress := 50\<rparr>)"
    by (simp add: generate_nft_def Let_def)
  from assms q ins upd show "d' = d @ [?row\<lparr>progress := 50\<rparr>]"
    by (simp add: generate_nft_def Let_def)
qed

lemma generate_nft_Inl:
  assumes "generate_nft d request now = (Inl e, d')"
  shows "d' = d"
proof (cases "query_first (\<lambda>n. dogKey n = GenerateNFTRequest.dogKey request) d")
  case None
  show ?thesis
  proof (cases "db_insert d (new_row d request now)")
    case ins: None
    with None assms show ?thesis by (simp add: generate_nft_def)
  next
    case (Some d1)
    with None assms show ?thesis by (simp add: generate_nft_def Let_def)
  qed
next
  case (Some existing_key)
  with assms show ?thesis by (simp add: generate_nft_def)
qed

subsection \<open>Creation\<close>

text \<open>
  C2: when the table holds a row with the \<^verbatim>\<open>dogKey\<close> of the request, \<^verbatim>\<open>generate_nft\<close> raises
  the HTTP 400 exception with code \<^verbatim>\<open>DUPLICATE_KEY\<close> and the table is the one before the call:
  no row is added and the number of rows is the same.
\<close>

theorem generate_nft_duplicate_key:
  assumes "r \<in> set d" and "dogKey r = GenerateNFTRequest.dogKey request"
  shows "fst (generate_nft d request now) =
           Inl (HTTPException 400
                 [(''error'', JStr ''Dog key must be unique''), (''code'', JStr ''DUPLICATE_KEY'')])
         \<and> snd (generate_nft d request now) = d
         \<and> length (snd (generate_nft d request now)) = length d"
  using generate_nft_duplicate [OF assms] by simp

theorem generate_nft_duplicate_key_witness:
  "fst (generate_nft [example_row 50] example_request example_time) =
     Inl (HTTPException 400
           [(''error'', JStr ''Dog key must be unique''), (''code'', JStr ''DUPLICATE_KEY'')])
   \<and> snd (generate_nft [example_row 50] example_request example_time) = [example_row 50]
   \<and> length (snd (generate_nft [example_row 50] example_request example_time)) = 1"
  using generate_nft_duplicate_key [of "example_row 50" "[example_row 50]" example_request example_time]
  by (simp add: example_row_def example_request_def)

text \<open>
  C8 as stated fails: the body of a successful \<^verbatim>\<open>generate_nft\<close> has no key \<^verbatim>\<open>progress\<close>.
\<close>

theorem generate_response_progress_counterexample:
  "fst (generate_nft [] example_request example_time) = Inr (generate_response (example_row 50))
   \<and> field (fst (generate_nft [] example_request example_time)) ''status'' = Some (JStr ''generating'')
   \<and> field (fst (generate_nft [] example_request example_time)) ''progress'' \<noteq> Some (JInt 50)"
  by (simp add: generate_example field_def generate_response_def example_row_def)

text \<open>
  C8, amended: the body of every successful \<^verbatim>\<open>generate_nft\<close> has \<^verbatim>\<open>status\<close> \<^verbatim>\<open>"generating"\<close>
  and no key \<^verbatim>\<open>progress\<close>; the row the call has appended to the table, after its two writes,
  has status \<^verbatim>\<open>"generating"\<close> and progress 50.
\<close>

theorem generate_nft_response:
  assumes "generate_nft d request now = (Inr body, d')"
  shows "map_of body ''status'' = Some (JStr ''generating'')
         \<and> map_of body ''progress'' = None
         \<and> length d' = length d + 1 \<and> butlast d' = d
         \<and> status (last d') = ''generating'' \<and> progress (last d') = 50
         \<and> map_of body ''id'' = Some (JStr (nft_id (last d')))"
  using generate_nft_Inr(1,2) [OF assms]
  by (simp add: generate_response_def new_row_def)

theorem generate_nft_response_witness:
  "generate_nft [] example_request example_time =
     (Inr (generate_response (example_row 50)), [example_row 50])
   \<and> map_of (generate_response (example_row 50)) ''status'' = Some (JStr ''generating'')
   \<and> map_of (generate_response (example_row 50)) ''progress'' = None
   \<and> progress (last [example_row 50]) = 50"
  using generate_nft_response [OF generate_example] generate_example
  by simp

subsection \<open>The checks\<close>

text \<open>
  C10: the results of \<^verbatim>\<open>check_name\<close> and \<^verbatim>\<open>check_key\<close> do not depend on the
  \<^verbatim>\<open>walletAddress\<close> of the request: two requests on the same table with the same \<^verbatim>\<open>name\<close>
  (the same \<^verbatim>\<open>dogKey\<close>) get the same response, and the table is unchanged.
\<close>

theorem check_wallet_independent:
  "(CheckNameRequest.name a = CheckNameRequest.name b \<longrightarrow>
      check_name d a = check_name d b \<and> snd (check_name d a) = d)
   \<and> (CheckKeyRequest.dogKey k = CheckKeyRequest.dogKey l \<longrightarrow>
      check_key d k = check_key d l \<and> snd (check_key d k) = d)"
  by (simp add: check_name_def check_key_def split: option.split)

theorem check_wallet_independent_witness:
  "check_name [example_row 50]
     \<lparr>CheckNameRequest.name = ''CryptoDog #1'', CheckNameRequest.walletAddress = ''0x123...abc''\<rparr> =
   check_name [example_row 50]
     \<lparr>CheckNameRequest.name = ''CryptoDog #1'', CheckNameRequest.walletAddress = ''0x999''\<rparr>
   \<and> fst (check_name [example_row 50]
     \<lparr>CheckNameRequest.name = ''CryptoDog #1'', CheckNameRequest.walletAddress = ''0x999''\<rparr>) =
       Inr [(''available'', JBool False), (''message'', JStr ''NFT name is already taken'')]
   \<and> check_key [example_row 50]
     \<lparr>CheckKeyRequest.dogKey = ''KEY_1'', CheckKeyRequest.walletAddress = ''0x123...abc''\<rparr> =
   check_key [example_row 50]
     \<lparr>CheckKeyRequest.dogKey = ''KEY_1'', CheckKeyRequest.walletAddress = ''0x999''\<rparr>
   \<and> fst (check_key [example_row 50]
     \<lparr>CheckKeyRequest.dogKey = ''KEY_1'', CheckKeyRequest.walletAddress = ''0x999''\<rparr>) =
       Inr [(''valid'', JBool True), (''unique'', JBool True),
            (''message'', JStr ''Dog key is valid and unique'')]"
  using check_wallet_independent [of
      "\<lparr>CheckNameRequest.name = ''CryptoDog #1'', CheckNameRequest.walletAddress = ''0x123...abc''\<rparr>"
      "\<lparr>CheckNameRequest.name = ''CryptoDog #1'', CheckNameRequest.walletAddress = ''0x999''\<rparr>"
      "[example_row 50]"
      "\<lparr>CheckKeyRequest.dogKey = ''KEY_1'', CheckKeyRequest.walletAddress = ''0x123...abc''\<rparr>"
      "\<lparr>CheckKeyRequest.dogKey = ''KEY_1'', CheckKeyRequest.walletAddress = ''0x999''\<rparr>"]
  by (simp add: check_name_def check_key_def query_first_def example_row_def)

subsection \<open>Status\<close>

lemma example_row_fields [simp]:
  "nft_id (example_row p) = ''nft_1''" "name (example_row p) = ''CryptoDog #1''"
  "dogKey (example_row p) = ''KEY_123456''" "walletAddress (example_row p) = ''0x123...abc''"
  "status (example_row p) = ''generating''" "progress (example_row p) = p"
  "imageUrl (example_row p) = None"
  by (simp_all add: example_row_def)

lemma advance_frame:
  "nft_id (advance i r) = nft_id r" "name (advance i r) = name r"
  "description (advance i r) = description r" "dogKey (advance i r) = dogKey r"
  "walletAddress (advance i r) = walletAddress r" "attributes (advance i r) = attributes r"
  "contractAddress (advance i r) = contractAddress r" "tokenId (advance i r) = tokenId r"
  "createdAt (advance i r) = createdAt r" "mintedAt (advance i r) = mintedAt r"
  by (simp_all add: advance_def Let_def)

lemma get_nft_status_None:
  assumes "query_first (\<lambda>n. nft_id n = i \<and> walletAddress n = wallet) d = None"
  shows "get_nft_status d i wallet =
           (Inl (HTTPException 404
                  [(''error'', JStr ''NFT not found''), (''code'', JStr ''NFT_NOT_FOUND'')]), d)"
  using assms by (simp add: get_nft_status_def)

lemma get_nft_status_Some:
  assumes "query_first (\<lambda>n. nft_id n = i \<and> walletAddress n = wallet) d = Some nft"
  shows "get_nft_status d i wallet =
           (if status nft = ''generating''
            then (Inr (status_response (advance i nft)), db_update d (advance i nft))
            else (Inr (status_response nft), d))"
  using assms by (simp add: get_nft_status_def Let_def)

lemma query_first_row:
  assumes "distinct (map nft_id d)" and "r \<in> set d"
  shows "query_first (\<lambda>n. nft_id n = nft_id r \<and> walletAddress n = walletAddress r) d = Some r"
  using assms by (intro query_first_unique) (auto dest: pk_unique)

lemma db_update_nth:
  "k < length d \<Longrightarrow>
     db_update d row ! k = (if nft_id (d ! k) = nft_id row then row else d ! k)"
  by (simp add: db_update_def)

lemma db_update_map:
  assumes "\<And>x. x \<in> set d \<Longrightarrow> nft_id x = nft_id row \<Longrightarrow> f row = f x"
  shows "map f (db_update d row) = map f d"
  using assms by (induction d) (simp_all add: db_update_def)

text \<open>
  C6: in a table that satisfies its primary key, \<^verbatim>\<open>get_nft_status\<close> with the \<^verbatim>\<open>id\<close> of a row
  and a \<^verbatim>\<open>walletAddress\<close> that is not the row's raises the HTTP 404 exception with code
  \<^verbatim>\<open>NFT_NOT_FOUND\<close> and writes nothing: the result of a call with an \<^verbatim>\<open>id\<close> that no row has.
\<close>

theorem get_nft_status_wrong_owner:
  assumes "distinct (map nft_id d)" and "r \<in> set d" and "wallet \<noteq> walletAddress r"
    and "i \<notin> set (map nft_id d)"
  shows "get_nft_status d (nft_id r) wallet =
           (Inl (HTTPException 404
                  [(''error'', JStr ''NFT not found''), (''code'', JStr ''NFT_NOT_FOUND'')]), d)
         \<and> get_nft_status d (nft_id r) wallet = get_nft_status d i wallet'"
proof -
  have "\<forall>x \<in> set d. \<not> (nft_id x = nft_id r \<and> walletAddress x = wallet)"
    using assms(1-3) by (auto dest: pk_unique)
  then have a: "query_first (\<lambda>n. nft_id n = nft_id r \<and> walletAddress n = wallet) d = None"
    by (simp add: query_first_None)
  have "\<forall>x \<in> set d. \<not> (nft_id x = i \<and> walletAddress x = wallet')"
    using assms(4) by auto
  then have b: "query_first (\<lambda>n. nft_id n = i \<and> walletAddress n = wallet') d = None"
    by (simp add: query_first_None)
  from get_nft_status_None [OF a] get_nft_status_None [OF b] show ?thesis by simp
qed

theorem get_nft_status_wrong_owner_witness:
  "get_nft_status [example_row 50] ''nft_1'' ''0x999'' =
     (Inl (HTTPException 404
            [(''error'', JStr ''NFT not found''), (''code'', JStr ''NFT_NOT_FOUND'')]),
      [example_row 50])
   \<and> get_nft_status [example_row 50] ''nft_1'' ''0x999'' =
       get_nft_status [example_row 50] ''nft_7'' ''0x123...abc''"
proof -
  have "distinct (map nft_id [example_row 50])" and "example_row 50 \<in> set [example_row 50]"
    and "''0x999'' \<noteq> walletAddress (example_row 50)"
    and "''nft_7'' \<notin> set (map nft_id [example_row 50])"
    by simp_all
  from get_nft_status_wrong_owner [OF this, of "''0x123...abc''"] show ?thesis
    by auto
qed

text \<open>
  C9: in a table that satisfies its primary key, a call of \<^verbatim>\<open>get_nft_status\<close> keeps the
  number and the order of the rows, changes no column of any row but \<^verbatim>\<open>progress\<close>,
  \<^verbatim>\<open>status\<close> and \<^verbatim>\<open>imageUrl\<close>, and changes no row but the one with the \<^verbatim>\<open>id\<close> and the
  \<^verbatim>\<open>walletAddress\<close> of the call.
\<close>

theorem get_nft_status_frame:
  assumes "distinct (map nft_id d)" and "k < length d"
  shows "length (snd (get_nft_status d i wallet)) = length d
         \<and> nft_id (snd (get_nft_status d i wallet) ! k) = nft_id (d ! k)
         \<and> name (snd (get_nft_status d i wallet) ! k) = name (d ! k)
         \<and> description (snd (get_nft_status d i wallet) ! k) = description (d ! k)
         \<and> dogKey (snd (get_nft_status d i wallet) ! k) = dogKey (d ! k)
         \<and> walletAddress (snd (get_nft_status d i wallet) ! k) = walletAddress (d ! k)
         \<and> attributes (snd (get_nft_status d i wallet) ! k) = attributes (d ! k)
         \<and> contractAddress (snd (get_nft_status d i wallet) ! k) = contractAddress (d ! k)
         \<and> tokenId (snd (get_nft_status d i wallet) ! k) = tokenId (d ! k)
         \<and> createdAt (snd (get_nft_status d i wallet) ! k) = createdAt (d ! k)
         \<and> mintedAt (snd (get_nft_status d i wallet) ! k) = mintedAt (d ! k)
         \<and> (\<not> (nft_id (d ! k) = i \<and> walletAddress (d ! k) = wallet) \<longrightarrow>
              snd (get_nft_status d i wallet) ! k = d ! k)"
proof (cases "query_first (\<lambda>n. nft_id n = i \<and> walletAddress n = wallet) d")
  case None
  from get_nft_status_None [OF None] show ?thesis by simp
next
  case (Some nft)
  from query_first_Some [OF Some]
  have nft: "nft \<in> set d" "nft_id nft = i" "walletAddress nft = wallet" by simp_all
  show ?thesis
  proof (cases "status nft = ''generating''")
    case False
    with get_nft_status_Some [OF Some] show ?thesis by simp
  next
    case True
    with get_nft_status_Some [OF Some]
    have d': "snd (get_nft_status d i wallet) = db_update d (advance i nft)" by simp
    have same: "d ! k = nft" if "nft_id (d ! k) = i"
      using pk_unique [OF assms(1) nft(1), of "d ! k"] assms(2) that nft(2) by simp
    show ?thesis
      unfolding d' using assms(2) same nft(2,3)
      by (auto simp: db_update_nth db_update_length advance_frame)
  qed
qed

theorem get_nft_status_frame_witness:
  "snd (get_nft_status [example_row 50] ''nft_1'' ''0x123...abc'') = [example_row 75]
   \<and> length (snd (get_nft_status [example_row 50] ''nft_1'' ''0x123...abc'')) = 1
   \<and> name (snd (get_nft_status [example_row 50] ''nft_1'' ''0x123...abc'') ! 0) = ''CryptoDog #1''
   \<and> dogKey (snd (get_nft_status [example_row 50] ''nft_1'' ''0x123...abc'') ! 0) = ''KEY_123456''"
  using get_nft_status_frame [of "[example_row 50]" 0 "''nft_1''" "''0x123...abc''"]
  by (simp add: example_row_def get_nft_status_def query_first_def advance_def db_update_def
      Let_def)

subsection \<open>Invariants of the reachable tables\<close>

lemma advance_progress:
  "progress (advance i r) = min (progress r + 25) 100"
  by (simp add: advance_def Let_def)

lemma advance_status:
  "status (advance i r) = (if min (progress r + 25) 100 = 100 then ''ready'' else status r)"
  by (simp add: advance_def Let_def)

lemma advance_imageUrl:
  "imageUrl (advance i r) =
     (if min (progress r + 25) 100 = 100 then Some (image_url i) else imageUrl r)"
  by (simp add: advance_def Let_def)

lemma set_db_update: "set (db_update d row) \<subseteq> insert row (set d)"
  by (auto simp: db_update_def)

lemma get_nft_status_db_ok:
  assumes "db_ok d"
  shows "db_ok (snd (get_nft_status d i wallet))"
proof (cases "query_first (\<lambda>n. nft_id n = i \<and> walletAddress n = wallet) d")
  case None
  from get_nft_status_None [OF None] assms show ?thesis by simp
next
  case (Some nft)
  from query_first_Some [OF Some] have nft: "nft \<in> set d" by simp
  from assms have pk: "distinct (map nft_id d)" by (simp add: db_ok_def)
  have "map dogKey (db_update d (advance i nft)) = map dogKey d"
  proof (rule db_update_map)
    fix x assume "x \<in> set d" and "nft_id x = nft_id (advance i nft)"
    with pk_unique [OF pk nft, of x] show "dogKey (advance i nft) = dogKey x"
      by (simp add: advance_frame)
  qed
  with assms get_nft_status_Some [OF Some] show ?thesis
    by (simp add: db_ok_def db_update_ids)
qed

lemma generate_nft_db_ok:
  assumes "db_ok d"
  shows "db_ok (snd (generate_nft d request now))"
proof (cases "fst (generate_nft d request now)")
  case (Inl e)
  then have "generate_nft d request now = (Inl e, snd (generate_nft d request now))"
    by (simp add: prod_eq_iff)
  from generate_nft_Inl [OF this] assms show ?thesis by simp
next
  case (Inr body)
  then have "generate_nft d request now = (Inr body, snd (generate_nft d request now))"
    by (simp add: prod_eq_iff)
  from generate_nft_Inr(2-4) [OF this] assms show ?thesis
    by (simp add: db_ok_def)
qed

lemma handle_db_ok: "db_ok d \<Longrightarrow> db_ok (snd (handle d c))"
  by (cases c)
    (simp_all add: read_root_def check_name_def check_key_def get_nft_collection_def Let_def
      generate_nft_db_ok get_nft_status_db_ok split: option.split)

lemma reachable_db_ok: "reachable d \<Longrightarrow> db_ok d"
proof (induction rule: reachable.induct)
  case reachable_init
  show ?case by (simp add: db_ok_def)
next
  case (reachable_step d c)
  then show ?case by (simp add: handle_db_ok)
qed

lemma get_nft_status_ready_inv:
  assumes "ready_inv d"
  shows "ready_inv (snd (get_nft_status d i wallet))"
proof (cases "query_first (\<lambda>n. nft_id n = i \<and> walletAddress n = wallet) d")
  case None
  from get_nft_status_None [OF None] assms show ?thesis by simp
next
  case (Some nft)
  from query_first_Some [OF Some] have nft: "nft \<in> set d" "nft_id nft = i" by simp_all
  show ?thesis
  proof (cases "status nft = ''generating''")
    case False
    with get_nft_status_Some [OF Some] assms show ?thesis by simp
  next
    case True
    have new: "status (advance i nft) = ''ready'' \<longrightarrow>
                 imageUrl (advance i nft) =
                   Some (''https://example.com/nft/'' @ nft_id (advance i nft) @ ''.png'')
                 \<and> progress (advance i nft) = 100"
      using True nft(2)
      by (simp add: advance_status advance_imageUrl advance_progress advance_frame image_url_def)
    from True get_nft_status_Some [OF Some]
    have d': "snd (get_nft_status d i wallet) = db_update d (advance i nft)" by simp
    show ?thesis
      unfolding ready_inv_def
    proof (intro ballI)
      fix r assume "r \<in> set (snd (get_nft_status d i wallet))"
      with set_db_update [of d "advance i nft"] have "r = advance i nft \<or> r \<in> set d"
        unfolding d' by auto
      then show "status r = ''ready'' \<longrightarrow>
                   imageUrl r = Some (''https://example.com/nft/'' @ nft_id r @ ''.png'')
                   \<and> progress r = 100"
        using new assms by (auto simp: ready_inv_def)
    qed
  qed
qed

lemma generate_nft_ready_inv:
  assumes "ready_inv d"
  shows "ready_inv (snd (generate_nft d request now))"
proof (cases "fst (generate_nft d request now)")
  case (Inl e)
  then have "generate_nft d request now = (Inl e, snd (generate_nft d request now))"
    by (simp add: prod_eq_iff)
  from generate_nft_Inl [OF this] assms show ?thesis by simp
next
  case (Inr body)
  then have "generate_nft d request now = (Inr body, snd (generate_nft d request now))"
    by (simp add: prod_eq_iff)
  from generate_nft_Inr(2) [OF this] assms show ?thesis
    by (simp add: ready_inv_def new_row_def)
qed

lemma handle_ready_inv: "ready_inv d \<Longrightarrow> ready_inv (snd (handle d c))"
  by (cases c)
    (simp_all add: read_root_def check_name_def check_key_def get_nft_collection_def Let_def
      generate_nft_ready_inv get_nft_status_ready_inv split: option.split)

lemma reachable_ready_inv: "reachable d \<Longrightarrow> ready_inv d"
proof (induction rule: reachable.induct)
  case reachable_init
  show ?case by (simp add: ready_inv_def)
next
  case (reachable_step d c)
  then show ?case by (simp add: handle_ready_inv)
qed

subsection \<open>The example, evaluated\<close>

lemma example_ready_fields [simp]:
  "nft_id example_ready = ''nft_1''" "walletAddress example_ready = ''0x123...abc''"
  "status example_ready = ''ready''" "progress example_ready = 100"
  "imageUrl example_ready = Some ''https://example.com/nft/nft_1.png''"
  "dogKey example_ready = ''KEY_123456''" "name example_ready = ''CryptoDog #1''"
  by (simp_all add: example_ready_def)

lemma status_example_50:
  "get_nft_status [example_row 50] ''nft_1'' ''0x123...abc'' =
     (Inr (status_response (example_row 75)), [example_row 75])"
  by (simp add: get_nft_status_def query_first_def advance_def db_update_def Let_def
      example_row_def)

lemma status_example_75:
  "get_nft_status [example_row 75] ''nft_1'' ''0x123...abc'' =
     (Inr (status_response example_ready), [example_ready])"
  by (simp add: get_nft_status_def query_first_def advance_def db_update_def Let_def
      example_row_def example_ready_def image_url_def)

lemma status_example_ready:
  "get_nft_status [example_ready] ''nft_1'' ''0x123...abc'' =
     (Inr (status_response example_ready), [example_ready])"
  by (simp add: get_nft_status_def query_first_def)

lemma reachable_example_50: "reachable [example_row 50]"
  using reachable_step [OF reachable_init, of "Generate example_request example_time"]
  by (simp add: generate_example)

lemma reachable_example_75: "reachable [example_row 75]"
  using reachable_step [OF reachable_example_50, of "Status ''nft_1'' ''0x123...abc''"]
  by (simp add: status_example_50)

lemma reachable_example_ready: "reachable [example_ready]"
  using reachable_step [OF reachable_example_75, of "Status ''nft_1'' ''0x123...abc''"]
  by (simp add: status_example_75)

lemma str_of_nat_2: "str_of_nat (Suc (Suc 0)) = ''2''"
  by (simp add: str_of_nat.simps digit_char_def)

lemma generate_example2:
  "generate_nft [example_row 50] example_request2 example_time =
     (Inr (generate_response
        ((example_row 50)\<lparr>nft_id := ''nft_2'', dogKey := ''KEY_654321''\<rparr>)),
      [example_row 50, (example_row 50)\<lparr>nft_id := ''nft_2'', dogKey := ''KEY_654321''\<rparr>])"
  by (simp add: generate_nft_def new_row_def example_request_def example_request2_def
      example_row_def query_first_def query_all_def db_insert_def db_update_def str_of_nat_2
      Let_def)

lemma duplicate_name_reachable:
  "reachable [example_row 50, (example_row 50)\<lparr>nft_id := ''nft_2'', dogKey := ''KEY_654321''\<rparr>]
   \<and> \<not> distinct (map name
         [example_row 50, (example_row 50)\<lparr>nft_id := ''nft_2'', dogKey := ''KEY_654321''\<rparr>])"
  using reachable_step [OF reachable_example_50, of "Generate example_request2 example_time"]
  by (simp add: generate_example2)

lemma second_row_fields [simp]:
  "nft_id (second_row p) = ''nft_2''" "name (second_row p) = ''CryptoDog #2''"
  "dogKey (second_row p) = ''KEY_000002''" "walletAddress (second_row p) = ''0x999''"
  "status (second_row p) = ''generating''" "progress (second_row p) = p"
  "imageUrl (second_row p) = None"
  by (simp_all add: second_row_def)

lemma second_ready_fields [simp]:
  "nft_id second_ready = ''nft_2''" "walletAddress second_ready = ''0x999''"
  "status second_ready = ''ready''" "progress second_ready = 100"
  "imageUrl second_ready = Some ''https://example.com/nft/nft_2.png''"
  by (simp_all add: second_ready_def)

lemma third_row_fields [simp]:
  "nft_id third_row = ''nft_3''" "name third_row = ''CryptoDog #1''"
  "dogKey third_row = ''KEY_654321''" "walletAddress third_row = ''0x123...abc''"
  "status third_row = ''generating''" "progress third_row = 50" "imageUrl third_row = None"
  by (simp_all add: third_row_def)


lemma generate_second:
  "generate_nft [example_ready] second_request second_time =
     (Inr (generate_response (second_row 50)), [example_ready, second_row 50])"
  by (simp add: generate_nft_def new_row_def second_request_def second_row_def
      query_first_def query_all_def db_insert_def db_update_def str_of_nat_2 Let_def)

lemma status_second_50:
  "get_nft_status [example_ready, second_row 50] ''nft_2'' ''0x999'' =
     (Inr (status_response (second_row 75)), [example_ready, second_row 75])"
  by (simp add: get_nft_status_def query_first_def advance_def db_update_def Let_def
      second_row_def)

lemma status_second_75:
  "get_nft_status [example_ready, second_row 75] ''nft_2'' ''0x999'' =
     (Inr (status_response second_ready), [example_ready, second_ready])"
  by (simp add: get_nft_status_def query_first_def advance_def db_update_def Let_def
      second_row_def second_ready_def image_url_def)

lemma reachable_second_50: "reachable [example_ready, second_row 50]"
  using reachable_step [OF reachable_example_ready, of "Generate second_request second_time"]
  by (simp add: generate_second)

lemma reachable_second_75: "reachable [example_ready, second_row 75]"
  using reachable_step [OF reachable_second_50, of "Status ''nft_2'' ''0x999''"]
  by (simp add: status_second_50)

lemma reachable_second_ready: "reachable [example_ready, second_ready]"
  using reachable_step [OF reachable_second_75, of "Status ''nft_2'' ''0x999''"]
  by (simp add: status_second_75)





subsection \<open>Uniqueness\<close>

text \<open>
  C5 as stated fails: after two successful calls of \<^verbatim>\<open>generate_nft\<close> with the same \<^verbatim>\<open>name\<close> and
  two keys, the table holds two rows with that name.
\<close>

theorem name_unique_counterexample:
  "reachable (snd (generate_nft (snd (generate_nft [] example_request example_time))
                     example_request2 example_time))
   \<and> field (fst (generate_nft (snd (generate_nft [] example_request example_time))
                     example_request2 example_time)) ''id'' = Some (JStr ''nft_2'')
   \<and> \<not> distinct (map name (snd (generate_nft (snd (generate_nft [] example_request example_time))
                     example_request2 example_time)))"
  using duplicate_name_reachable
  by (simp add: generate_example generate_example2 field_def generate_response_def)

text \<open>
  C5, amended: in every reachable table the column \<^verbatim>\<open>dogKey\<close>, the one \<^verbatim>\<open>generate_nft\<close>
  checks, is unique across the rows, and it is so after every request, \<^verbatim>\<open>generate_nft\<close>
  included; the column \<^verbatim>\<open>name\<close> is not kept unique: a reachable table holds one name twice.
\<close>

theorem dogKey_unique:
  "(reachable d \<longrightarrow> distinct (map dogKey d) \<and> distinct (map dogKey (snd (handle d c))))
   \<and> (\<exists>d'. reachable d' \<and> \<not> distinct (map name d'))"
proof -
  have "db_ok d \<and> db_ok (snd (handle d c))" if "reachable d"
    using reachable_db_ok [OF that] by (simp add: handle_db_ok)
  then have "reachable d \<longrightarrow> distinct (map dogKey d) \<and> distinct (map dogKey (snd (handle d c)))"
    by (simp add: db_ok_def)
  with duplicate_name_reachable show ?thesis by blast
qed

theorem dogKey_unique_witness:
  "reachable [example_row 50]
   \<and> distinct (map dogKey [example_row 50])
   \<and> snd (handle [example_row 50] (Generate example_request2 example_time)) =
       [example_row 50, (example_row 50)\<lparr>nft_id := ''nft_2'', dogKey := ''KEY_654321''\<rparr>]
   \<and> distinct (map dogKey
       (snd (handle [example_row 50] (Generate example_request2 example_time))))"
  using dogKey_unique [of "[example_row 50]" "Generate example_request2 example_time"]
    reachable_example_50
  by (simp add: generate_example2)

subsection \<open>Finished rows\<close>

text \<open>
  C3: in every reachable table, a row with status \<^verbatim>\<open>"ready"\<close> has progress 100 and the
  \<^verbatim>\<open>imageUrl\<close> \<^verbatim>\<open>https://example.com/nft/{id}.png\<close> of its own \<^verbatim>\<open>id\<close>, so that two finished
  rows with one \<^verbatim>\<open>imageUrl\<close> have one \<^verbatim>\<open>id\<close>. Every request preserves this; and when the
  response of \<^verbatim>\<open>get_nft_status\<close> on a reachable table says \<^verbatim>\<open>"ready"\<close>, it carries progress
  100 and that URL of the \<^verbatim>\<open>id\<close> of the call.
\<close>

theorem ready_invariant:
  "(reachable d \<longrightarrow>
      (\<forall>r \<in> set d. status r = ''ready'' \<longrightarrow>
         imageUrl r = Some (''https://example.com/nft/'' @ nft_id r @ ''.png'')
         \<and> imageUrl r \<noteq> None \<and> progress r = 100))
   \<and> (reachable d \<longrightarrow>
        (\<forall>r \<in> set d. \<forall>r' \<in> set d. status r = ''ready'' \<longrightarrow> status r' = ''ready'' \<longrightarrow>
           imageUrl r = imageUrl r' \<longrightarrow> nft_id r = nft_id r'))
   \<and> (ready_inv d \<longrightarrow> ready_inv (snd (handle d c)))
   \<and> (reachable d \<longrightarrow>
        field (fst (get_nft_status d i wallet)) ''status'' = Some (JStr ''ready'') \<longrightarrow>
          field (fst (get_nft_status d i wallet)) ''progress'' = Some (JInt 100)
          \<and> field (fst (get_nft_status d i wallet)) ''imageUrl'' =
              Some (JStr (''https://example.com/nft/'' @ i @ ''.png'')))"
proof -
  have one: "\<forall>r \<in> set d. status r = ''ready'' \<longrightarrow>
               imageUrl r = Some (''https://example.com/nft/'' @ nft_id r @ ''.png'')
               \<and> imageUrl r \<noteq> None \<and> progress r = 100"
    if "reachable d"
    using reachable_ready_inv [OF that] by (simp add: ready_inv_def)
  have c1: "reachable d \<longrightarrow>
      (\<forall>r \<in> set d. status r = ''ready'' \<longrightarrow>
         imageUrl r = Some (''https://example.com/nft/'' @ nft_id r @ ''.png'')
         \<and> imageUrl r \<noteq> None \<and> progress r = 100)"
    by (rule impI) (rule one)
  have c2: "reachable d \<longrightarrow>
        (\<forall>r \<in> set d. \<forall>r' \<in> set d. status r = ''ready'' \<longrightarrow> status r' = ''ready'' \<longrightarrow>
           imageUrl r = imageUrl r' \<longrightarrow> nft_id r = nft_id r')"
  proof (intro impI ballI)
    fix r r'
    assume reach: "reachable d" and r: "r \<in> set d" "status r = ''ready''"
      and r': "r' \<in> set d" "status r' = ''ready''" and same: "imageUrl r = imageUrl r'"
    from one [OF reach] r
    have "imageUrl r = Some (''https://example.com/nft/'' @ nft_id r @ ''.png'')" by simp
    moreover from one [OF reach] r'
    have "imageUrl r' = Some (''https://example.com/nft/'' @ nft_id r' @ ''.png'')" by simp
    ultimately show "nft_id r = nft_id r'" using same by simp
  qed
  have c3: "ready_inv d \<longrightarrow> ready_inv (snd (handle d c))"
    by (rule impI) (rule handle_ready_inv)
  have c4: "reachable d \<longrightarrow>
        field (fst (get_nft_status d i wallet)) ''status'' = Some (JStr ''ready'') \<longrightarrow>
          field (fst (get_nft_status d i wallet)) ''progress'' = Some (JInt 100)
          \<and> field (fst (get_nft_status d i wallet)) ''imageUrl'' =
              Some (JStr (''https://example.com/nft/'' @ i @ ''.png''))"
  proof (intro impI)
    assume reach: "reachable d"
      and ready: "field (fst (get_nft_status d i wallet)) ''status'' = Some (JStr ''ready'')"
    show "field (fst (get_nft_status d i wallet)) ''progress'' = Some (JInt 100)
          \<and> field (fst (get_nft_status d i wallet)) ''imageUrl'' =
              Some (JStr (''https://example.com/nft/'' @ i @ ''.png''))"
    proof (cases "query_first (\<lambda>n. nft_id n = i \<and> walletAddress n = wallet) d")
      case None
      from get_nft_status_None [OF None] ready show ?thesis by (simp add: field_def)
    next
      case (Some nft)
      from query_first_Some [OF Some] have nft: "nft \<in> set d" "nft_id nft = i" by simp_all
      show ?thesis
      proof (cases "status nft = ''generating''")
        case True
        with get_nft_status_Some [OF Some] ready show ?thesis
          by (simp add: field_def status_response_def advance_status advance_progress
              advance_imageUrl opt_str_def image_url_def split: if_splits)
      next
        case False
        with get_nft_status_Some [OF Some] ready have "status nft = ''ready''"
          by (simp add: field_def status_response_def)
        with one [OF reach] nft
        have "imageUrl nft = Some (''https://example.com/nft/'' @ i @ ''.png'')"
          and "progress nft = 100"
          by auto
        with False get_nft_status_Some [OF Some] show ?thesis
          by (simp add: field_def status_response_def opt_str_def)
      qed
    qed
  qed
  show ?thesis
    by (intro conjI) (rule c1, rule c2, rule c3, rule c4)
qed

theorem ready_invariant_witness:
  "reachable [example_ready, second_ready]
   \<and> status example_ready = ''ready'' \<and> status second_ready = ''ready''
   \<and> nft_id example_ready = ''nft_1'' \<and> nft_id second_ready = ''nft_2''
   \<and> imageUrl example_ready = Some ''https://example.com/nft/nft_1.png''
   \<and> imageUrl second_ready = Some ''https://example.com/nft/nft_2.png''
   \<and> progress example_ready = 100 \<and> progress second_ready = 100
   \<and> handle [example_ready, second_row 75] (Status ''nft_2'' ''0x999'') =
       (Inr (status_response second_ready), [example_ready, second_ready])
   \<and> field (fst (get_nft_status [example_ready, second_row 75] ''nft_2'' ''0x999'')) ''status'' =
       Some (JStr ''ready'')
   \<and> field (fst (get_nft_status [example_ready, second_row 75] ''nft_2'' ''0x999'')) ''progress'' =
       Some (JInt 100)
   \<and> field (fst (get_nft_status [example_ready, second_row 75] ''nft_2'' ''0x999'')) ''imageUrl'' =
       Some (JStr ''https://example.com/nft/nft_2.png'')"
proof -
  have st: "field (fst (get_nft_status [example_ready, second_row 75] ''nft_2'' ''0x999''))
      ''status'' = Some (JStr ''ready'')"
    by (simp add: status_second_75 field_def status_response_def)
  have inv: "ready_inv [example_ready, second_row 75]"
    by (simp add: ready_inv_def)
  from ready_invariant [of "[example_ready, second_ready]" Root "''nft_1''" "''0x123...abc''"]
    reachable_second_ready
  have a: "imageUrl example_ready = Some ''https://example.com/nft/nft_1.png''
           \<and> imageUrl second_ready = Some ''https://example.com/nft/nft_2.png''
           \<and> progress example_ready = 100 \<and> progress second_ready = 100"
    by simp
  from ready_invariant [of "[example_ready, second_row 75]" "Status ''nft_2'' ''0x999''"
      "''nft_2''" "''0x999''"] reachable_second_75 st inv
  have b: "ready_inv (snd (handle [example_ready, second_row 75] (Status ''nft_2'' ''0x999'')))
           \<and> field (fst (get_nft_status [example_ready, second_row 75] ''nft_2'' ''0x999''))
               ''progress'' = Some (JInt 100)
           \<and> field (fst (get_nft_status [example_ready, second_row 75] ''nft_2'' ''0x999''))
               ''imageUrl'' = Some (JStr ''https://example.com/nft/nft_2.png'')"
    by simp
  from a b st reachable_second_ready show ?thesis
    by (simp add: status_second_75)
qed

text \<open>
  C4: for a row with status \<^verbatim>\<open>"ready"\<close> of a reachable table, \<^verbatim>\<open>get_nft_status\<close> with the
  \<^verbatim>\<open>id\<close> and the \<^verbatim>\<open>walletAddress\<close> of the row answers with the row as it is stored, progress
  100, status \<^verbatim>\<open>"ready"\<close> and the \<^verbatim>\<open>imageUrl\<close> of the row, leaves the table as it was, and
  a second call gives the result of the first.
\<close>

theorem get_nft_status_ready_idempotent:
  assumes "reachable d" and "r \<in> set d" and "status r = ''ready''"
  shows "get_nft_status d (nft_id r) (walletAddress r) = (Inr (status_response r), d)
         \<and> field (fst (get_nft_status d (nft_id r) (walletAddress r))) ''progress'' =
             Some (JInt 100)
         \<and> field (fst (get_nft_status d (nft_id r) (walletAddress r))) ''status'' =
             Some (JStr ''ready'')
         \<and> field (fst (get_nft_status d (nft_id r) (walletAddress r))) ''imageUrl'' =
             Some (opt_str (imageUrl r))
         \<and> imageUrl r \<noteq> None
         \<and> snd (get_nft_status d (nft_id r) (walletAddress r)) = d
         \<and> get_nft_status (snd (get_nft_status d (nft_id r) (walletAddress r)))
             (nft_id r) (walletAddress r) = get_nft_status d (nft_id r) (walletAddress r)"
proof -
  from reachable_db_ok [OF assms(1)] have pk: "distinct (map nft_id d)"
    by (simp add: db_ok_def)
  from reachable_ready_inv [OF assms(1)] assms(2,3)
  have inv: "imageUrl r = Some (image_url (nft_id r))" "progress r = 100"
    by (auto simp: ready_inv_def image_url_def)
  from get_nft_status_Some [OF query_first_row [OF pk assms(2)]] assms(3)
  have "get_nft_status d (nft_id r) (walletAddress r) = (Inr (status_response r), d)"
    by simp
  with inv assms(3) show ?thesis
    by (simp add: field_def status_response_def)
qed

theorem get_nft_status_ready_idempotent_witness:
  "get_nft_status [example_ready] ''nft_1'' ''0x123...abc'' =
     (Inr (status_response example_ready), [example_ready])
   \<and> field (fst (get_nft_status [example_ready] ''nft_1'' ''0x123...abc'')) ''progress'' =
       Some (JInt 100)
   \<and> field (fst (get_nft_status [example_ready] ''nft_1'' ''0x123...abc'')) ''imageUrl'' =
       Some (JStr ''https://example.com/nft/nft_1.png'')"
proof -
  have "example_ready \<in> set [example_ready]" and "status example_ready = ''ready''"
    by simp_all
  from get_nft_status_ready_idempotent [OF reachable_example_ready this] show ?thesis
    by (auto simp: opt_str_def)
qed

subsection \<open>Polling a new row\<close>

lemma get_nft_status_last:
  assumes "nft_id r \<notin> set (map nft_id d)"
  shows "get_nft_status (d @ [r]) (nft_id r) (walletAddress r) =
           (if status r = ''generating''
            then (Inr (status_response (advance (nft_id r) r)), d @ [advance (nft_id r) r])
            else (Inr (status_response r), d @ [r]))"
proof -
  from assms have "\<forall>x \<in> set d. nft_id x \<noteq> nft_id r"
    by (auto simp: image_iff)
  then have "\<forall>x \<in> set d. \<not> (nft_id x = nft_id r \<and> walletAddress x = walletAddress r)"
    by simp
  then have "query_first (\<lambda>n. nft_id n = nft_id r \<and> walletAddress n = walletAddress r) (d @ [r])
             = Some r"
    by (rule query_first_append_last) simp
  from get_nft_status_Some [OF this]
    db_update_append_last [of "advance (nft_id r) r" d r] assms
  show ?thesis by (simp add: advance_frame)
qed

text \<open>
  C1 as stated fails: the first of four calls of \<^verbatim>\<open>get_nft_status\<close> for the row that
  \<^verbatim>\<open>generate_nft\<close> has just stored answers with progress 75, not 25.
\<close>

theorem poll_new_row_counterexample:
  "fst (generate_nft [] example_request example_time) = Inr (generate_response (example_row 50))
   \<and> field (fst (generate_nft [] example_request example_time)) ''id'' = Some (JStr ''nft_1'')
   \<and> map (\<lambda>r. field r ''progress'')
        (fst (poll (snd (generate_nft [] example_request example_time))
                ''nft_1'' (GenerateNFTRequest.walletAddress example_request) 4)) =
       [Some (JInt 75), Some (JInt 100), Some (JInt 100), Some (JInt 100)]
   \<and> map (\<lambda>r. field r ''progress'')
        (fst (poll (snd (generate_nft [] example_request example_time))
                ''nft_1'' (GenerateNFTRequest.walletAddress example_request) 4)) \<noteq>
       [Some (JInt 25), Some (JInt 50), Some (JInt 75), Some (JInt 100)]"
proof -
  have w: "GenerateNFTRequest.walletAddress example_request = ''0x123...abc''"
    by (simp add: example_request_def)
  show ?thesis
    by (simp add: generate_example w eval_nat_numeral status_example_50 status_example_75
        status_example_ready field_def generate_response_def status_response_def)
qed

text \<open>
  C1, amended: for the row a successful \<^verbatim>\<open>generate_nft\<close> has stored (with progress 50), four
  calls of \<^verbatim>\<open>get_nft_status\<close> one after the other, with the \<^verbatim>\<open>id\<close> of the response and the
  \<^verbatim>\<open>walletAddress\<close> of the request, answer with progress 75, 100, 100, 100 and status
  generating, ready, ready, ready; \<^verbatim>\<open>imageUrl\<close> is null in the first response and is the URL
  built from the \<^verbatim>\<open>id\<close> from the second on.
\<close>

theorem poll_new_row:
  assumes "generate_nft d request now = (Inr body, d1)"
    and "map_of body ''id'' = Some (JStr i)"
  shows "map (\<lambda>r. field r ''progress'')
           (fst (poll d1 i (GenerateNFTRequest.walletAddress request) 4)) =
          [Some (JInt 75), Some (JInt 100), Some (JInt 100), Some (JInt 100)]
         \<and> map (\<lambda>r. field r ''status'')
           (fst (poll d1 i (GenerateNFTRequest.walletAddress request) 4)) =
          [Some (JStr ''generating''), Some (JStr ''ready''), Some (JStr ''ready''),
           Some (JStr ''ready'')]
         \<and> map (\<lambda>r. field r ''imageUrl'')
           (fst (poll d1 i (GenerateNFTRequest.walletAddress request) 4)) =
          [Some JNull, Some (JStr (image_url i)), Some (JStr (image_url i)),
           Some (JStr (image_url i))]"
proof -
  define r0 where "r0 = (new_row d request now)\<lparr>progress := 50\<rparr>"
  define r1 where "r1 = advance i r0"
  define r2 where "r2 = advance i r1"
  from generate_nft_Inr [OF assms(1)]
  have body: "body = generate_response r0" and d1: "d1 = d @ [r0]"
    and fresh: "nft_id r0 \<notin> set (map nft_id d)"
    by (simp_all add: r0_def)
  from body assms(2) have i: "nft_id r0 = i"
    by (simp add: generate_response_def)
  have w: "walletAddress r0 = GenerateNFTRequest.walletAddress request"
    by (simp add: r0_def new_row_def)
  have f0: "status r0 = ''generating''" "progress r0 = 50" "imageUrl r0 = None"
    by (simp_all add: r0_def new_row_def)
  have f1: "status r1 = ''generating''" "progress r1 = 75" "imageUrl r1 = None"
    "nft_id r1 = i" "walletAddress r1 = GenerateNFTRequest.walletAddress request"
    using f0 i w
    by (simp_all add: r1_def advance_status advance_progress advance_imageUrl advance_frame)
  have f2: "status r2 = ''ready''" "progress r2 = 100" "imageUrl r2 = Some (image_url i)"
    "nft_id r2 = i" "walletAddress r2 = GenerateNFTRequest.walletAddress request"
    using f1
    by (simp_all add: r2_def advance_status advance_progress advance_imageUrl advance_frame)
  have s1: "get_nft_status (d @ [r0]) i (GenerateNFTRequest.walletAddress request) =
              (Inr (status_response r1), d @ [r1])"
    using get_nft_status_last [OF fresh] f0 i w by (simp add: r1_def)
  have s2: "get_nft_status (d @ [r1]) i (GenerateNFTRequest.walletAddress request) =
              (Inr (status_response r2), d @ [r2])"
    using get_nft_status_last [of r1 d] fresh f1 i by (simp add: r2_def)
  have s3: "get_nft_status (d @ [r2]) i (GenerateNFTRequest.walletAddress request) =
              (Inr (status_response r2), d @ [r2])"
    using get_nft_status_last [of r2 d] fresh f2 i by simp
  have "fst (poll d1 i (GenerateNFTRequest.walletAddress request) 4) =
          [Inr (status_response r1), Inr (status_response r2), Inr (status_response r2),
           Inr (status_response r2)]"
    by (simp add: d1 eval_nat_numeral s1 s2 s3)
  then show ?thesis
    by (simp add: field_def status_response_def f1 f2 opt_str_def)
qed

theorem poll_new_row_witness:
  "map (\<lambda>r. field r ''progress'') (fst (poll [example_row 50] ''nft_1'' ''0x123...abc'' 4)) =
     [Some (JInt 75), Some (JInt 100), Some (JInt 100), Some (JInt 100)]
   \<and> map (\<lambda>r. field r ''status'') (fst (poll [example_row 50] ''nft_1'' ''0x123...abc'' 4)) =
     [Some (JStr ''generating''), Some (JStr ''ready''), Some (JStr ''ready''),
      Some (JStr ''ready'')]
   \<and> map (\<lambda>r. field r ''imageUrl'') (fst (poll [example_row 50] ''nft_1'' ''0x123...abc'' 4)) =
     [Some JNull, Some (JStr ''https://example.com/nft/nft_1.png''),
      Some (JStr ''https://example.com/nft/nft_1.png''),
      Some (JStr ''https://example.com/nft/nft_1.png'')]"
proof -
  have "map_of (generate_response (example_row 50)) ''id'' = Some (JStr ''nft_1'')"
    by (simp add: generate_response_def)
  moreover have "GenerateNFTRequest.walletAddress example_request = ''0x123...abc''"
    by (simp add: example_request_def)
  ultimately show ?thesis
    using poll_new_row [OF generate_example, of "''nft_1''"]
    by (simp add: image_url_def)
qed

subsection \<open>Collection\<close>



end
